theory Spec2Isabelle
  imports Main
begin

section \<open>JavaScript values the client handles\<close>

text \<open>
  A JavaScript string is a sequence of UTF-16 code units; \<open>length\<close>, the regular
  expression character classes and \<open>trim\<close> all work on code units, so a string is the
  list of its code units. \<open>js\<close> turns an ASCII literal into that list.
\<close>

type_synonym jsstring = "nat list"

definition js :: "string \<Rightarrow> jsstring" where
  "js s = map of_char s"

text \<open>
  Identifiers come from the backend as JSON scalars. The client compares them with
  \<open>===\<close> and tests them for truthiness (\<open>currentFolder || ''\<close>,
  \<open>if (currentFolder)\<close>): the number 0 and the empty string are falsy.
\<close>

datatype jsid = IdNum int | IdStr jsstring

fun truthy_id :: "jsid \<Rightarrow> bool" where
  "truthy_id (IdNum n) = (n \<noteq> 0)"
| "truthy_id (IdStr s) = (s \<noteq> [])"

record folder_node =
  folder_id :: jsid
  folder_name :: jsstring
  parent_id :: "jsid option"
  folder_size :: nat

record file_node =
  file_id :: jsid
  file_name :: jsstring
  file_folder_id :: "jsid option"
  file_size :: nat
  created_at :: jsstring

text \<open>
  \<open>{ ...item, type }\<close>: the dragged, moved or deleted entry together with its
  \<open>type\<close> tag (\<open>'file'\<close> or \<open>'folder'\<close>).
\<close>

datatype typed_item = FileItem file_node | FolderItem folder_node

datatype type_tag = TypeFile | TypeFolder

fun item_id :: "typed_item \<Rightarrow> jsid" where
  "item_id (FileItem f) = file_id f"
| "item_id (FolderItem d) = folder_id d"

fun item_type :: "typed_item \<Rightarrow> type_tag" where
  "item_type (FileItem f) = TypeFile"
| "item_type (FolderItem d) = TypeFolder"

text \<open>A browser \<open>File\<close> picked or dropped by the user.\<close>

record local_file =
  lf_name :: jsstring
  webkitRelativePath :: jsstring

record stats_rec =
  storage_used :: nat
  file_count :: nat
  folder_count :: nat

section \<open>Requests, responses and notifications\<close>

datatype upload_target = FolderPath jsstring | FolderId jsid | NoFolder

datatype request =
    GetFiles "jsid option"
  | GetFolderTree
  | GetStats
  | GetBreadcrumb jsid
  | PostUpload local_file upload_target
  | PostCreateFolder jsstring "jsid option"
  | PostMoveFile jsid "jsid option"
  | PostMoveFolder jsid "jsid option"
  | DeleteFile jsid
  | DeleteFolder jsid

text \<open>
  What an awaited request resolves to: success, or a failure that may carry the
  server's \<open>error.response?.data?.detail\<close>.
\<close>

datatype response = Succeeded | Failed "jsstring option"

text \<open>
  Toast texts: an English literal, a translated key \<open>t(key)\<close>, a translated key
  followed by a count \<open>t(key) + ` (${n})`\<close>, the server's detail string, or a
  template literal around a file name (prefix, name, suffix).
\<close>

datatype message =
    Lit string
  | Tr string
  | TrCount string nat
  | Detail jsstring
  | Named string jsstring string

datatype toast = ToastSuccess message | ToastError message

text \<open>\<open>error.response?.data?.detail || fallback\<close>: an absent or empty detail is falsy.\<close>

fun detail_or :: "jsstring option \<Rightarrow> message \<Rightarrow> message" where
  "detail_or None fallback = fallback"
| "detail_or (Some d) fallback = (if d = [] then fallback else Detail d)"

section \<open>The Dashboard component's state\<close>

text \<open>
  The \<open>useState\<close> cells of \<open>Dashboard\<close>, followed by two logs of what the component
  did to the outside: the requests it issued and the toasts it showed, oldest first.
\<close>

record client =
  files :: "file_node list"
  folders :: "folder_node list"
  currentFolder :: "jsid option"
  breadcrumb :: "folder_node list"
  stats :: stats_rec
  loading :: bool
  newFolderName :: jsstring
  showFolderDialog :: bool
  showDeleteDialog :: bool
  deleteTarget :: "typed_item option"
  showMoveDialog :: bool
  moveTarget :: "typed_item option"
  moveDestination :: "jsid option"
  dragOver :: bool
  draggedItem :: "typed_item option"
  dropTarget :: "jsid option"
  sent :: "request list"
  toasts :: "toast list"

definition send :: "request \<Rightarrow> client \<Rightarrow> client" where
  "send r s = s\<lparr>sent := sent s @ [r]\<rparr>"

definition show_toast :: "toast \<Rightarrow> client \<Rightarrow> client" where
  "show_toast t s = s\<lparr>toasts := toasts s @ [t]\<rparr>"

text \<open>
  An \<open>async\<close> handler runs synchronously up to its first \<open>await\<close>, and resumes when
  the awaited request has resolved. \<open>Awaiting s r k\<close> is a handler suspended on request
  \<open>r\<close>, having left the state \<open>s\<close>; \<open>k\<close> is the rest of the handler, given the
  response and the state as it is on resumption. A handler reads the state cells from
  the render it was created in and writes to the live state: a handler started by an
  event takes the one state \<open>s\<close> for both, and \<open>handleFileUpload\<close>, which is also called
  from inside another handler after an \<open>await\<close>, takes the render's state \<open>c\<close> and the
  live state separately.
\<close>

datatype error = TypeError

datatype susp =
    Finished client
  | Thrown error client
  | Awaiting client request "response \<Rightarrow> client \<Rightarrow> susp"

primrec then_do :: "susp \<Rightarrow> (client \<Rightarrow> susp) \<Rightarrow> susp" where
  "then_do (Finished s) f = f s"
| "then_do (Thrown e s) f = Thrown e s"
| "then_do (Awaiting s r k) f = Awaiting s r (\<lambda>resp live. then_do (k resp live) f)"

text \<open>The state a handler leaves when it first returns control to the event loop.\<close>

primrec sync_state :: "susp \<Rightarrow> client" where
  "sync_state (Finished s) = s"
| "sync_state (Thrown e s) = s"
| "sync_state (Awaiting s r k) = s"

text \<open>
  Running a handler to completion with no other event in between: the request is
  logged, and the \<open>i\<close>-th request of the log resolves to \<open>env i\<close>.
\<close>

datatype outcome = Returned client | Rejected error client

primrec run :: "(nat \<Rightarrow> response) \<Rightarrow> susp \<Rightarrow> outcome" where
  "run env (Finished s) = Returned s"
| "run env (Thrown e s) = Rejected e s"
| "run env (Awaiting s r k) = run env (k (env (length (sent s))) (send r s))"

section \<open>Loading the directory view\<close>

text \<open>
  \<open>loadFiles\<close>, \<open>loadFolders\<close> and \<open>loadStats\<close> are called without \<open>await\<close>: the call
  issues the GET and returns; the \<open>_done\<close> function is what runs when the response
  arrives (\<open>None\<close> is a failed request, which is only written to the console).
\<close>

definition or_empty :: "jsid option \<Rightarrow> jsid option" where
  "or_empty i = (case i of None \<Rightarrow> None | Some v \<Rightarrow> if truthy_id v then Some v else None)"

definition loadFiles :: "client \<Rightarrow> client \<Rightarrow> client" where
  "loadFiles c live = send (GetFiles (or_empty (currentFolder c))) live"

definition loadFiles_done :: "file_node list option \<Rightarrow> client \<Rightarrow> client" where
  "loadFiles_done resp live = (case resp of None \<Rightarrow> live | Some d \<Rightarrow> live\<lparr>files := d\<rparr>)"

definition loadFolders :: "client \<Rightarrow> client \<Rightarrow> client" where
  "loadFolders c live = send GetFolderTree live"

definition loadFolders_done :: "client \<Rightarrow> folder_node list option \<Rightarrow> client \<Rightarrow> client" where
  "loadFolders_done c resp live =
     (case resp of None \<Rightarrow> live
      | Some allFolders \<Rightarrow>
          live\<lparr>folders := filter (\<lambda>f. parent_id f = currentFolder c) allFolders\<rparr>)"

definition loadStats :: "client \<Rightarrow> client \<Rightarrow> client" where
  "loadStats c live = send GetStats live"

definition loadStats_done :: "stats_rec option \<Rightarrow> client \<Rightarrow> client" where
  "loadStats_done resp live = (case resp of None \<Rightarrow> live | Some d \<Rightarrow> live\<lparr>stats := d\<rparr>)"

section \<open>Drag and drop\<close>

definition handleDragStart :: "typed_item \<Rightarrow> client \<Rightarrow> client" where
  "handleDragStart item s = s\<lparr>draggedItem := Some item\<rparr>"

definition handleDragEnd :: "client \<Rightarrow> client" where
  "handleDragEnd s = s\<lparr>draggedItem := None, dropTarget := None\<rparr>"

text \<open>
  \<open>handleDragOverItem (e, item, type)\<close>: only folder rows register it, always with
  \<open>type = 'folder'\<close>; the type is kept as a parameter as in the source.
\<close>

definition handleDragOverItem :: "folder_node \<Rightarrow> type_tag \<Rightarrow> client \<Rightarrow> client" where
  "handleDragOverItem item ty s =
     (case draggedItem s of
        None \<Rightarrow> s
      | Some d \<Rightarrow>
          if ty = TypeFolder \<and> item_id d \<noteq> folder_id item
          then s\<lparr>dropTarget := Some (folder_id item)\<rparr> else s)"

definition handleDragLeaveItem :: "client \<Rightarrow> client" where
  "handleDragLeaveItem s = s\<lparr>dropTarget := None\<rparr>"

definition handleDragOver :: "client \<Rightarrow> client" where
  "handleDragOver s = s\<lparr>dragOver := True\<rparr>"

definition handleDragLeave :: "client \<Rightarrow> client" where
  "handleDragLeave s = s\<lparr>dragOver := False\<rparr>"

text \<open>
  The events a drag can raise between \<open>dragstart\<close> and \<open>dragend\<close> when nothing is
  dropped: hovering over and leaving folder rows and the file-manager card.
\<close>

datatype hover_event =
    OverItem folder_node
  | LeaveItem
  | OverRoot
  | LeaveRoot

fun hover :: "hover_event \<Rightarrow> client \<Rightarrow> client" where
  "hover (OverItem d) s = handleDragOverItem d TypeFolder s"
| "hover LeaveItem s = handleDragLeaveItem s"
| "hover OverRoot s = handleDragOver s"
| "hover LeaveRoot s = handleDragLeave s"

definition cancelled_drag :: "typed_item \<Rightarrow> hover_event list \<Rightarrow> client \<Rightarrow> client" where
  "cancelled_drag item evs s = handleDragEnd (fold hover evs (handleDragStart item s))"

section \<open>Uploading files\<close>

text \<open>
  The form fields of one upload: \<open>folder_path\<close> when a truthy \<open>folderPath\<close> was
  passed, else \<open>folder_id\<close> when \<open>currentFolder\<close> is truthy, else neither.
\<close>

definition current_target :: "client \<Rightarrow> upload_target" where
  "current_target c =
     (case currentFolder c of
        None \<Rightarrow> NoFolder
      | Some i \<Rightarrow> if truthy_id i then FolderId i else NoFolder)"

definition upload_target_of :: "client \<Rightarrow> jsstring option \<Rightarrow> upload_target" where
  "upload_target_of c folderPath =
     (case folderPath of
        None \<Rightarrow> current_target c
      | Some p \<Rightarrow> if p = [] then current_target c else FolderPath p)"

text \<open>
  After the loop: at most one success toast and one error toast, each with its count,
  then \<open>setLoading(false)\<close> and the three reloads.
\<close>

definition upload_report :: "client \<Rightarrow> nat \<Rightarrow> nat \<Rightarrow> client \<Rightarrow> client" where
  "upload_report c successCount errorCount live =
     (let l1 = (if successCount > 0
                then show_toast (ToastSuccess (TrCount ''fileUploaded'' successCount)) live
                else live);
          l2 = (if errorCount > 0
                then show_toast (ToastError (TrCount ''fileUploadFailed'' errorCount)) l1
                else l1)
      in loadStats c (loadFolders c (loadFiles c (l2\<lparr>loading := False\<rparr>))))"

text \<open>
  The \<open>for (const file of files)\<close> loop with its two counters: each iteration awaits
  one POST; the \<open>catch\<close> counts the failure (and writes it to the console) and the
  loop goes on.
\<close>

fun upload_each ::
  "client \<Rightarrow> jsstring option \<Rightarrow> local_file list \<Rightarrow> nat \<Rightarrow> nat \<Rightarrow> client \<Rightarrow> susp" where
  "upload_each c folderPath [] successCount errorCount live =
     Finished (upload_report c successCount errorCount live)"
| "upload_each c folderPath (file # rest) successCount errorCount live =
     Awaiting live (PostUpload file (upload_target_of c folderPath))
       (\<lambda>resp live'.
          case resp of
            Succeeded \<Rightarrow> upload_each c folderPath rest (successCount + 1) errorCount live'
          | Failed d \<Rightarrow> upload_each c folderPath rest successCount (errorCount + 1) live')"

definition handleFileUpload ::
  "client \<Rightarrow> local_file list \<Rightarrow> jsstring option \<Rightarrow> client \<Rightarrow> susp" where
  "handleFileUpload c fs folderPath live =
     (if fs = [] then Finished live
      else upload_each c folderPath fs 0 0 (live\<lparr>loading := True\<rparr>))"

text \<open>
  The earlier revision of the component (the first \<open>Dashboard\<close> of the file) has no
  \<open>folderPath\<close> parameter and no counters: it toasts inside the loop, once per file,
  and reloads only the files and the stats.
\<close>

fun upload_each_v1 :: "client \<Rightarrow> local_file list \<Rightarrow> client \<Rightarrow> susp" where
  "upload_each_v1 c [] live = Finished (loadStats c (loadFiles c (live\<lparr>loading := False\<rparr>)))"
| "upload_each_v1 c (file # rest) live =
     Awaiting live (PostUpload file (current_target c))
       (\<lambda>resp live'.
          case resp of
            Succeeded \<Rightarrow>
              upload_each_v1 c rest
                (show_toast (ToastSuccess (Named [] (lf_name file) '' uploaded successfully''))
                   live')
          | Failed d \<Rightarrow>
              upload_each_v1 c rest
                (show_toast
                   (ToastError (detail_or d (Named ''Failed to upload '' (lf_name file) [])))
                   live'))"

definition handleFileUpload_v1 :: "client \<Rightarrow> local_file list \<Rightarrow> client \<Rightarrow> susp" where
  "handleFileUpload_v1 c fs live =
     (if fs = [] then Finished live else upload_each_v1 c fs (live\<lparr>loading := True\<rparr>))"

section \<open>Uploading a folder tree\<close>

text \<open>\<open>relativePath.split('/')\<close>, \<open>pathParts.slice(0, -1)\<close> and \<open>join('/')\<close>.\<close>

fun split_on :: "nat \<Rightarrow> jsstring \<Rightarrow> jsstring list" where
  "split_on sep [] = [[]]"
| "split_on sep (c # cs) =
     (if c = sep then [] # split_on sep cs
      else (case split_on sep cs of
              [] \<Rightarrow> [[c]]
            | p # ps \<Rightarrow> (c # p) # ps))"

fun join_with :: "nat \<Rightarrow> jsstring list \<Rightarrow> jsstring" where
  "join_with sep [] = []"
| "join_with sep [p] = p"
| "join_with sep (p # q # ps) = p @ sep # join_with sep (q # ps)"

definition slash :: nat where
  "slash = 47"

definition folder_path_of :: "local_file \<Rightarrow> jsstring" where
  "folder_path_of file = join_with slash (butlast (split_on slash (webkitRelativePath file)))"

text \<open>
  \<open>filesByPath\<close> is a plain object literal: its own properties are kept in creation
  order, and a key it does not own is still looked up on \<open>Object.prototype\<close>. For
  such a key \<open>filesByPath[folderPath]\<close> is truthy, no array is created, and
  \<open>.push\<close> is not a function.
\<close>

definition object_prototype_keys :: "jsstring list" where
  "object_prototype_keys =
     map js [''constructor'', ''__defineGetter__'', ''__defineSetter__'', ''hasOwnProperty'',
             ''__lookupGetter__'', ''__lookupSetter__'', ''isPrototypeOf'',
             ''propertyIsEnumerable'', ''toString'', ''valueOf'', ''__proto__'',
             ''toLocaleString'']"

type_synonym files_by_path = "(jsstring \<times> local_file list) list"

definition push_file :: "jsstring \<Rightarrow> local_file \<Rightarrow> files_by_path \<Rightarrow> files_by_path" where
  "push_file p file obj = map (\<lambda>(k, v). if k = p then (k, v @ [file]) else (k, v)) obj"

fun group_files :: "local_file list \<Rightarrow> files_by_path \<Rightarrow> error + files_by_path" where
  "group_files [] obj = Inr obj"
| "group_files (file # rest) obj =
     (let p = folder_path_of file in
      if p \<in> set (map fst obj) then group_files rest (push_file p file obj)
      else if p \<in> set object_prototype_keys then Inl TypeError
      else group_files rest (obj @ [(p, [file])]))"

text \<open>
  \<open>Object.entries\<close> lists the keys that are array indices (canonical decimal numerals
  below \<open>2^32 - 1\<close>) first, in ascending numeric order, and then the other string keys in
  creation order.
\<close>

fun digits_value :: "jsstring \<Rightarrow> nat \<Rightarrow> nat option" where
  "digits_value [] acc = Some acc"
| "digits_value (c # cs) acc =
     (if 48 \<le> c \<and> c \<le> 57 then digits_value cs (10 * acc + (c - 48)) else None)"

definition array_index :: "jsstring \<Rightarrow> nat option" where
  "array_index key =
     (case key of
        [] \<Rightarrow> None
      | c # cs \<Rightarrow>
          if c = 48 \<and> cs \<noteq> [] then None
          else (case digits_value key 0 of
                  None \<Rightarrow> None
                | Some n \<Rightarrow> if n < 4294967295 then Some n else None))"

definition object_entries :: "files_by_path \<Rightarrow> files_by_path" where
  "object_entries obj =
     sort_key (\<lambda>(k, v). case array_index k of None \<Rightarrow> 0 | Some n \<Rightarrow> n)
       (filter (\<lambda>(k, v). array_index k \<noteq> None) obj)
     @ filter (\<lambda>(k, v). array_index k = None) obj"

fun upload_groups :: "client \<Rightarrow> files_by_path \<Rightarrow> client \<Rightarrow> susp" where
  "upload_groups c [] live = Finished live"
| "upload_groups c ((folderPath, pathFiles) # rest) live =
     then_do (handleFileUpload c pathFiles (Some folderPath) live) (upload_groups c rest)"

definition handleFolderUpload :: "local_file list \<Rightarrow> client \<Rightarrow> susp" where
  "handleFolderUpload fs s =
     (if fs = [] then Finished s
      else (case group_files fs [] of
              Inl e \<Rightarrow> Thrown e (s\<lparr>loading := True\<rparr>)
            | Inr filesByPath \<Rightarrow>
                then_do (upload_groups s (object_entries filesByPath) (s\<lparr>loading := True\<rparr>))
                  (\<lambda>live. Finished (live\<lparr>loading := False\<rparr>))))"

section \<open>Creating a folder\<close>

text \<open>
  \<open>String.prototype.trim\<close> strips the code units of WhiteSpace and LineTerminator from
  both ends.
\<close>

definition is_js_whitespace :: "nat \<Rightarrow> bool" where
  "is_js_whitespace c =
     (c \<in> set [9, 10, 11, 12, 13, 32, 160, 5760, 8232, 8233, 8239, 8287, 12288, 65279]
      \<or> (8192 \<le> c \<and> c \<le> 8202))"

definition trim :: "jsstring \<Rightarrow> jsstring" where
  "trim s = rev (dropWhile is_js_whitespace (rev (dropWhile is_js_whitespace s)))"

definition handleCreateFolder :: "client \<Rightarrow> susp" where
  "handleCreateFolder s =
     (if trim (newFolderName s) = [] then Finished s
      else Awaiting s (PostCreateFolder (newFolderName s) (currentFolder s))
        (\<lambda>resp live.
           case resp of
             Succeeded \<Rightarrow>
               Finished
                 (loadStats s (loadFolders s
                    ((show_toast (ToastSuccess (Tr ''folderCreated'')) live)
                       \<lparr>newFolderName := [], showFolderDialog := False\<rparr>)))
           | Failed d \<Rightarrow>
               Finished (show_toast (ToastError (detail_or d (Tr ''folderCreateFailed''))) live)))"

section \<open>Moving\<close>

definition move_request :: "typed_item \<Rightarrow> jsid option \<Rightarrow> request" where
  "move_request item dest =
     (case item of
        FileItem f \<Rightarrow> PostMoveFile (file_id f) dest
      | FolderItem d \<Rightarrow> PostMoveFolder (folder_id d) dest)"

definition handleMove :: "client \<Rightarrow> susp" where
  "handleMove s =
     (case moveTarget s of
        None \<Rightarrow> Finished s
      | Some target \<Rightarrow>
          Awaiting s (move_request target (moveDestination s))
            (\<lambda>resp live.
               case resp of
                 Succeeded \<Rightarrow>
                   Finished
                     (loadFolders s (loadFiles s
                        ((show_toast (ToastSuccess (Lit ''Moved successfully'')) live)
                           \<lparr>showMoveDialog := False, moveTarget := None,
                            moveDestination := None\<rparr>)))
               | Failed d \<Rightarrow>
                   Finished (show_toast (ToastError (detail_or d (Lit ''Failed to move''))) live)))"

text \<open>
  The controls of the move dialog. A folder's button in the destination list carries
  \<open>disabled={moveTarget?.id === folder.id}\<close>; a disabled button raises no click.
\<close>

definition folder_move_click :: "folder_node \<Rightarrow> client \<Rightarrow> client" where
  "folder_move_click d s = s\<lparr>moveTarget := Some (FolderItem d), showMoveDialog := True\<rparr>"

definition file_move_click :: "file_node \<Rightarrow> client \<Rightarrow> client" where
  "file_move_click f s = s\<lparr>moveTarget := Some (FileItem f), showMoveDialog := True\<rparr>"

definition move_to_disabled :: "client \<Rightarrow> folder_node \<Rightarrow> bool" where
  "move_to_disabled s d =
     (case moveTarget s of None \<Rightarrow> False | Some target \<Rightarrow> item_id target = folder_id d)"

definition move_to_click :: "folder_node \<Rightarrow> client \<Rightarrow> client" where
  "move_to_click d s = (if move_to_disabled s d then s else s\<lparr>moveDestination := Some (folder_id d)\<rparr>)"

definition move_to_root_click :: "client \<Rightarrow> client" where
  "move_to_root_click s = s\<lparr>moveDestination := None\<rparr>"

definition setShowMoveDialog :: "bool \<Rightarrow> client \<Rightarrow> client" where
  "setShowMoveDialog b s = s\<lparr>showMoveDialog := b\<rparr>"

section \<open>Dropping\<close>

definition handleDropOnFolder :: "folder_node \<Rightarrow> client \<Rightarrow> susp" where
  "handleDropOnFolder targetFolder s =
     (case draggedItem s of
        None \<Rightarrow> Finished (s\<lparr>dropTarget := None\<rparr>)
      | Some d \<Rightarrow>
          if item_id d = folder_id targetFolder then Finished (s\<lparr>dropTarget := None\<rparr>)
          else
            Awaiting (s\<lparr>dropTarget := None\<rparr>) (move_request d (Some (folder_id targetFolder)))
              (\<lambda>resp live.
                 case resp of
                   Succeeded \<Rightarrow>
                     Finished
                       ((loadFolders s (loadFiles s
                           (show_toast
                              (ToastSuccess
                                 (Lit (case d of
                                         FileItem f \<Rightarrow> ''File moved successfully''
                                       | FolderItem g \<Rightarrow> ''Folder moved successfully'')))
                              live)))
                          \<lparr>draggedItem := None\<rparr>)
                 | Failed e \<Rightarrow>
                     Finished
                       ((show_toast (ToastError (detail_or e (Lit ''Failed to move''))) live)
                          \<lparr>draggedItem := None\<rparr>)))"

definition handleDropOnRoot :: "client \<Rightarrow> susp" where
  "handleDropOnRoot s =
     (case draggedItem s of
        None \<Rightarrow> Finished (s\<lparr>dropTarget := None\<rparr>)
      | Some d \<Rightarrow>
          Awaiting (s\<lparr>dropTarget := None\<rparr>) (move_request d None)
            (\<lambda>resp live.
               case resp of
                 Succeeded \<Rightarrow>
                   Finished
                     ((loadFolders s (loadFiles s
                         (show_toast
                            (ToastSuccess
                               (Lit (case d of
                                       FileItem f \<Rightarrow> ''File moved to root''
                                     | FolderItem g \<Rightarrow> ''Folder moved to root'')))
                            live)))
                        \<lparr>draggedItem := None\<rparr>)
               | Failed e \<Rightarrow>
                   Finished
                     ((show_toast (ToastError (detail_or e (Lit ''Failed to move''))) live)
                        \<lparr>draggedItem := None\<rparr>)))"

text \<open>
  \<open>handleDrop\<close> starts the upload of the dropped files without awaiting it; the card's
  \<open>onDrop\<close> chooses between it and \<open>handleDropOnRoot\<close> by \<open>e.dataTransfer.files.length\<close>.
\<close>

definition handleDrop :: "local_file list \<Rightarrow> client \<Rightarrow> susp" where
  "handleDrop dropped s = handleFileUpload s dropped None (s\<lparr>dragOver := False\<rparr>)"

definition card_onDrop :: "local_file list \<Rightarrow> client \<Rightarrow> susp" where
  "card_onDrop dropped s =
     (if length dropped > 0 then handleDrop dropped s else handleDropOnRoot s)"

section \<open>Password rules\<close>

text \<open>The character classes of the four regular expressions, on code units.\<close>

definition is_upper :: "nat \<Rightarrow> bool" where
  "is_upper c = (65 \<le> c \<and> c \<le> 90)"

definition is_lower :: "nat \<Rightarrow> bool" where
  "is_lower c = (97 \<le> c \<and> c \<le> 122)"

definition special_chars :: jsstring where
  "special_chars = js ''!@#$%^&*()_+-=[]{}|;:,.<>?''"

definition is_special :: "nat \<Rightarrow> bool" where
  "is_special c = (c \<in> set special_chars)"

text \<open>\<open>validatePassword\<close> of the login page: the messages of the rules that fail, in order.\<close>

definition validatePassword :: "jsstring \<Rightarrow> string list" where
  "validatePassword password =
     (if length password < 8 then [''Minimum 8 characters''] else [])
     @ (if list_ex is_upper password then [] else [''At least one uppercase letter''])
     @ (if list_ex is_lower password then [] else [''At least one lowercase letter''])
     @ (if list_ex is_special password then [] else [''At least one special character''])"

text \<open>The \<open>requirements\<close> table of \<open>PasswordStrengthIndicator\<close> and its strength label.\<close>

record requirement =
  req_label :: string
  req_test :: "jsstring \<Rightarrow> bool"
  req_id :: string

definition requirements :: "requirement list" where
  "requirements =
     [\<lparr>req_label = ''minChars'', req_test = (\<lambda>pwd. length pwd \<ge> 8), req_id = ''length''\<rparr>,
      \<lparr>req_label = ''uppercase'', req_test = list_ex is_upper, req_id = ''uppercase''\<rparr>,
      \<lparr>req_label = ''lowercase'', req_test = list_ex is_lower, req_id = ''lowercase''\<rparr>,
      \<lparr>req_label = ''specialChar'', req_test = list_ex is_special, req_id = ''special''\<rparr>]"

definition getStrength :: "jsstring \<Rightarrow> string" where
  "getStrength password =
     (let passed = length (filter (\<lambda>req. req_test req password) requirements) in
      if passed = 0 then ''Very Weak''
      else if passed = 1 then ''Weak''
      else if passed = 2 then ''Fair''
      else if passed = 3 then ''Good''
      else ''Strong'')"

definition allPassed :: "jsstring \<Rightarrow> bool" where
  "allPassed password = list_all (\<lambda>req. req_test req password) requirements"

text \<open>
  Two observations used to state the rules' behaviour: the ids of the rules a password
  passes, and the ids of the rules whose outcome differs between two passwords.
\<close>

definition passed_rules :: "jsstring \<Rightarrow> string list" where
  "passed_rules password = map req_id (filter (\<lambda>req. req_test req password) requirements)"

definition flipped_rules :: "jsstring \<Rightarrow> jsstring \<Rightarrow> string list" where
  "flipped_rules p q =
     map req_id (filter (\<lambda>req. req_test req p \<noteq> req_test req q) requirements)"

section \<open>Observations and sample data\<close>

text \<open>
  How many of the \<open>n\<close> requests logged from position \<open>base\<close> on succeed, and the
  counts a list of toasts reports.
\<close>

definition succeeded_among :: "(nat \<Rightarrow> response) \<Rightarrow> nat \<Rightarrow> nat \<Rightarrow> nat" where
  "succeeded_among env base n = length (filter (\<lambda>i. env i = Succeeded) [base ..< base + n])"

fun success_count_of :: "toast \<Rightarrow> nat" where
  "success_count_of (ToastSuccess (TrCount k n)) = n"
| "success_count_of t = 0"

fun failure_count_of :: "toast \<Rightarrow> nat" where
  "failure_count_of (ToastError (TrCount k n)) = n"
| "failure_count_of t = 0"

definition reported_successes :: "toast list \<Rightarrow> nat" where
  "reported_successes ts = sum_list (map success_count_of ts)"

definition reported_failures :: "toast list \<Rightarrow> nat" where
  "reported_failures ts = sum_list (map failure_count_of ts)"

fun final_state :: "outcome \<Rightarrow> client" where
  "final_state (Returned s) = s"
| "final_state (Rejected e s) = s"

text \<open>The state of a freshly mounted \<open>Dashboard\<close>: the initial values of its \<open>useState\<close> cells.\<close>

definition initial_client :: client where
  "initial_client =
     \<lparr>files = [], folders = [], currentFolder = None, breadcrumb = [],
      stats = \<lparr>storage_used = 0, file_count = 0, folder_count = 0\<rparr>,
      loading = False, newFolderName = [], showFolderDialog = False,
      showDeleteDialog = False, deleteTarget = None, showMoveDialog = False,
      moveTarget = None, moveDestination = None, dragOver = False,
      draggedItem = None, dropTarget = None, sent = [], toasts = []\<rparr>"

definition folder_a :: folder_node where
  "folder_a = \<lparr>folder_id = IdNum 1, folder_name = js ''A'', parent_id = None, folder_size = 0\<rparr>"

definition folder_b :: folder_node where
  "folder_b = \<lparr>folder_id = IdNum 2, folder_name = js ''B'', parent_id = None, folder_size = 0\<rparr>"

definition file_x :: file_node where
  "file_x = \<lparr>file_id = IdNum 7, file_name = js ''x.txt'', file_folder_id = None,
             file_size = 10, created_at = js ''2024-01-01''\<rparr>"

definition local_a :: local_file where
  "local_a = \<lparr>lf_name = js ''a.txt'', webkitRelativePath = js ''docs/a.txt''\<rparr>"

definition local_b :: local_file where
  "local_b = \<lparr>lf_name = js ''b.txt'', webkitRelativePath = js ''docs/sub/b.txt''\<rparr>"

definition always_ok :: "nat \<Rightarrow> response" where
  "always_ok i = Succeeded"

text \<open>
  The toast the earlier revision shows for one file, given the response to its upload,
  the toasts of a whole batch whose first request is logged at \<open>base\<close>, and the two
  kinds of toast.
\<close>

definition v1_toast :: "response \<Rightarrow> local_file \<Rightarrow> toast" where
  "v1_toast resp file =
     (case resp of
        Succeeded \<Rightarrow> ToastSuccess (Named [] (lf_name file) '' uploaded successfully'')
      | Failed d \<Rightarrow> ToastError (detail_or d (Named ''Failed to upload '' (lf_name file) [])))"

fun per_file_toasts :: "(nat \<Rightarrow> response) \<Rightarrow> nat \<Rightarrow> local_file list \<Rightarrow> toast list" where
  "per_file_toasts env base [] = []"
| "per_file_toasts env base (file # rest) =
     v1_toast (env base) file # per_file_toasts env (Suc base) rest"

fun is_success_toast :: "toast \<Rightarrow> bool" where
  "is_success_toast (ToastSuccess m) = True"
| "is_success_toast (ToastError m) = False"

fun is_error_toast :: "toast \<Rightarrow> bool" where
  "is_error_toast (ToastSuccess m) = False"
| "is_error_toast (ToastError m) = True"

text \<open>The request a handler is suspended on, and the uploads among a list of requests.\<close>

fun pending_request :: "susp \<Rightarrow> request option" where
  "pending_request (Awaiting s r k) = Some r"
| "pending_request (Finished s) = None"
| "pending_request (Thrown e s) = None"

fun uploads_in :: "request list \<Rightarrow> (local_file \<times> upload_target) list" where
  "uploads_in [] = []"
| "uploads_in (PostUpload f t # rs) = (f, t) # uploads_in rs"
| "uploads_in (r # rs) = uploads_in rs"

definition dragging_file_x :: client where
  "dragging_file_x =
     initial_client\<lparr>files := [file_x], folders := [folder_a, folder_b],
       draggedItem := Some (FileItem file_x), dropTarget := Some (IdNum 2)\<rparr>"

definition moving_folder_a :: client where
  "moving_folder_a =
     initial_client\<lparr>files := [file_x], folders := [folder_a, folder_b],
       showMoveDialog := True, moveTarget := Some (FolderItem folder_a),
       moveDestination := Some (IdNum 2)\<rparr>"

section \<open>Cancelled drags\<close>

lemma hover_directory:
  "files (hover ev s) = files s \<and> folders (hover ev s) = folders s \<and>
   breadcrumb (hover ev s) = breadcrumb s \<and> stats (hover ev s) = stats s \<and>
   currentFolder (hover ev s) = currentFolder s \<and> sent (hover ev s) = sent s"
  by (cases ev)
     (simp_all add: handleDragOverItem_def handleDragLeaveItem_def handleDragOver_def
        handleDragLeave_def split: option.split)

lemma fold_hover_directory:
  "files (fold hover evs s) = files s \<and> folders (fold hover evs s) = folders s \<and>
   breadcrumb (fold hover evs s) = breadcrumb s \<and> stats (fold hover evs s) = stats s \<and>
   currentFolder (fold hover evs s) = currentFolder s \<and> sent (fold hover evs s) = sent s"
  by (induction evs arbitrary: s) (simp_all add: hover_directory)

text \<open>
  C7. \<open>handleDragEnd\<close> clears \<open>draggedItem\<close> and \<open>dropTarget\<close> in every state. A drag
  that starts with \<open>dragstart\<close> and ends with \<open>dragend\<close> without a drop,
  whatever rows it hovered over in between, ends with \<open>draggedItem\<close> and
  \<open>dropTarget\<close> both cleared, and leaves the files, the folders, the breadcrumb, the
  stats and the current folder as they were; no request is issued.
\<close>

theorem cancelled_drag_clears_and_preserves:
  "draggedItem (handleDragEnd s) = None \<and>
   dropTarget (handleDragEnd s) = None \<and>
   draggedItem (cancelled_drag item evs s) = None \<and>
   dropTarget (cancelled_drag item evs s) = None \<and>
   files (cancelled_drag item evs s) = files s \<and>
   folders (cancelled_drag item evs s) = folders s \<and>
   breadcrumb (cancelled_drag item evs s) = breadcrumb s \<and>
   stats (cancelled_drag item evs s) = stats s \<and>
   currentFolder (cancelled_drag item evs s) = currentFolder s \<and>
   sent (cancelled_drag item evs s) = sent s"
  by (simp add: cancelled_drag_def handleDragEnd_def handleDragStart_def fold_hover_directory)

section \<open>Upload batches\<close>

lemma succeeded_among_0: "succeeded_among env base 0 = 0"
  by (simp add: succeeded_among_def)

lemma succeeded_among_Suc:
  "succeeded_among env base (Suc n) =
     (if env base = Succeeded then 1 else 0) + succeeded_among env (Suc base) n"
proof -
  have "[base ..< base + Suc n] = base # [Suc base ..< Suc base + n]"
    by (simp add: upt_conv_Cons del: upt_Suc)
  then show ?thesis
    unfolding succeeded_among_def by simp
qed

lemma succeeded_among_le: "succeeded_among env base n \<le> n"
  unfolding succeeded_among_def
  by (rule order_trans [OF length_filter_le]) simp

text \<open>
  The loop, run to its end: every file's POST is in the log in order, and the two
  counters have grown by the successes and by the failures among them.
\<close>

lemma run_upload_each:
  "run env (upload_each c fp fs ok err live) =
     Returned (upload_report c
       (ok + succeeded_among env (length (sent live)) (length fs))
       (err + (length fs - succeeded_among env (length (sent live)) (length fs)))
       (live\<lparr>sent := sent live @ map (\<lambda>f. PostUpload f (upload_target_of c fp)) fs\<rparr>))"
proof (induction fs arbitrary: ok err live)
  case Nil
  show ?case by (simp add: succeeded_among_0)
next
  case (Cons f fs)
  have le: "succeeded_among env (Suc (length (sent live))) (length fs) \<le> length fs"
    by (rule succeeded_among_le)
  show ?case
  proof (cases "env (length (sent live))")
    case Succeeded
    then show ?thesis
      using le by (simp add: Cons.IH send_def succeeded_among_Suc Suc_diff_le)
  next
    case (Failed d)
    then show ?thesis
      using le by (simp add: Cons.IH send_def succeeded_among_Suc Suc_diff_le)
  qed
qed

text \<open>
  The current handler on a batch: the requests it issues and the two counted toasts.
\<close>

lemma run_handleFileUpload_report:
  "(let N = length fs;
        M = succeeded_among env (length (sent s)) N;
        posts = map (\<lambda>f. PostUpload f (upload_target_of s folderPath)) fs;
        reloads = (if fs = [] then []
                   else [GetFiles (or_empty (currentFolder s)), GetFolderTree, GetStats]);
        report = (if M > 0 then [ToastSuccess (TrCount ''fileUploaded'' M)] else [])
                 @ (if N - M > 0 then [ToastError (TrCount ''fileUploadFailed'' (N - M))] else [])
    in \<exists>s'. run env (handleFileUpload s fs folderPath s) = Returned s' \<and>
          sent s' = sent s @ posts @ reloads \<and>
          length posts = N \<and>
          toasts s' = toasts s @ report \<and>
          reported_successes report = M \<and>
          reported_failures report = N - M \<and>
          length report \<le> 2)"
proof (cases "fs = []")
  case True
  then show ?thesis
    by (simp add: handleFileUpload_def succeeded_among_0 reported_successes_def
        reported_failures_def)
next
  case False
  then show ?thesis
    by (simp add: handleFileUpload_def run_upload_each upload_report_def Let_def
        show_toast_def loadFiles_def loadFolders_def loadStats_def send_def
        reported_successes_def reported_failures_def)
qed

text \<open>
  The earlier revision's loop, run to its end: every file's POST is in the log in
  order, and each response has added its own toast.
\<close>

lemma run_upload_each_v1_state:
  "run env (upload_each_v1 c fs live) =
     Returned (loadStats c (loadFiles c
       (live\<lparr>loading := False,
             sent := sent live @ map (\<lambda>f. PostUpload f (current_target c)) fs,
             toasts := toasts live @ per_file_toasts env (length (sent live)) fs\<rparr>)))"
proof (induction fs arbitrary: live)
  case Nil
  show ?case by simp
next
  case (Cons f fs)
  show ?case
    by (cases "env (length (sent live))")
       (simp_all add: Cons.IH send_def show_toast_def v1_toast_def)
qed

lemma length_per_file_toasts: "length (per_file_toasts env base fs) = length fs"
  by (induction fs arbitrary: base) simp_all

lemma success_toasts_per_file:
  "length (filter is_success_toast (per_file_toasts env base fs))
     = succeeded_among env base (length fs)"
proof (induction fs arbitrary: base)
  case Nil
  show ?case by (simp add: succeeded_among_0)
next
  case (Cons f fs)
  show ?case
    by (cases "env base") (simp_all add: Cons.IH succeeded_among_Suc v1_toast_def)
qed

lemma error_toasts_per_file:
  "length (filter is_error_toast (per_file_toasts env base fs))
     = length fs - succeeded_among env base (length fs)"
proof (induction fs arbitrary: base)
  case Nil
  show ?case by simp
next
  case (Cons f fs)
  have le: "succeeded_among env (Suc base) (length fs) \<le> length fs"
    by (rule succeeded_among_le)
  show ?case
    using le
    by (cases "env base") (simp_all add: Cons.IH succeeded_among_Suc v1_toast_def Suc_diff_le)
qed

lemma no_counts_per_file:
  "reported_successes (per_file_toasts env base fs) = 0 \<and>
   reported_failures (per_file_toasts env base fs) = 0"
proof (induction fs arbitrary: base)
  case Nil
  show ?case by (simp add: reported_successes_def reported_failures_def)
next
  case (Cons f fs)
  have "success_count_of (v1_toast r f) = 0 \<and> failure_count_of (v1_toast r f) = 0" for r
  proof (cases r)
    case Succeeded
    then show ?thesis by (simp add: v1_toast_def)
  next
    case (Failed d)
    then show ?thesis by (cases d) (simp_all add: v1_toast_def)
  qed
  then show ?case
    using Cons.IH [of "Suc base"] by (simp add: reported_successes_def reported_failures_def)
qed

text \<open>
  C2, as amended. For a batch of \<open>N\<close> files of which \<open>M\<close> uploads succeed, whatever
  the order of successes and failures, both revisions of \<open>handleFileUpload\<close> return
  having issued exactly one upload request per file, in order, followed (for a
  non-empty batch) by their reloads. The current handler then reports in at most two
  toasts, a success toast carrying \<open>M\<close> when \<open>M > 0\<close> and an error toast carrying
  \<open>N - M\<close> when \<open>N - M > 0\<close>, and no toast per file. The earlier handler reports per
  file: \<open>N\<close> toasts, of which \<open>M\<close> are success toasts and \<open>N - M\<close> are error toasts,
  none of them carrying a count.
\<close>

theorem upload_batch_requests_and_reports:
  "(let N = length fs;
        M = succeeded_among env (length (sent s)) N;
        posts = map (\<lambda>f. PostUpload f (upload_target_of s folderPath)) fs;
        reloads = (if fs = [] then []
                   else [GetFiles (or_empty (currentFolder s)), GetFolderTree, GetStats]);
        report = (if M > 0 then [ToastSuccess (TrCount ''fileUploaded'' M)] else [])
                 @ (if N - M > 0 then [ToastError (TrCount ''fileUploadFailed'' (N - M))] else []);
        posts1 = map (\<lambda>f. PostUpload f (current_target s)) fs;
        reloads1 = (if fs = [] then []
                    else [GetFiles (or_empty (currentFolder s)), GetStats]);
        report1 = per_file_toasts env (length (sent s)) fs
    in (\<exists>s'. run env (handleFileUpload s fs folderPath s) = Returned s' \<and>
          sent s' = sent s @ posts @ reloads \<and>
          length posts = N \<and>
          toasts s' = toasts s @ report \<and>
          reported_successes report = M \<and>
          reported_failures report = N - M \<and>
          length report \<le> 2) \<and>
       (\<exists>s'. run env (handleFileUpload_v1 s fs s) = Returned s' \<and>
          sent s' = sent s @ posts1 @ reloads1 \<and>
          length posts1 = N \<and>
          toasts s' = toasts s @ report1 \<and>
          length report1 = N \<and>
          length (filter is_success_toast report1) = M \<and>
          length (filter is_error_toast report1) = N - M \<and>
          reported_successes report1 = 0 \<and>
          reported_failures report1 = 0))"
proof -
  have run1: "run env (handleFileUpload_v1 s fs s) =
      Returned (if fs = [] then s
                else loadStats s (loadFiles s
                  (s\<lparr>loading := False,
                      sent := sent s @ map (\<lambda>f. PostUpload f (current_target s)) fs,
                      toasts := toasts s @ per_file_toasts env (length (sent s)) fs\<rparr>)))"
    by (simp add: handleFileUpload_v1_def run_upload_each_v1_state)
  have earlier: "\<exists>s'. run env (handleFileUpload_v1 s fs s) = Returned s' \<and>
          sent s' = sent s @ map (\<lambda>f. PostUpload f (current_target s)) fs
                    @ (if fs = [] then []
                       else [GetFiles (or_empty (currentFolder s)), GetStats]) \<and>
          length (map (\<lambda>f. PostUpload f (current_target s)) fs) = length fs \<and>
          toasts s' = toasts s @ per_file_toasts env (length (sent s)) fs \<and>
          length (per_file_toasts env (length (sent s)) fs) = length fs \<and>
          length (filter is_success_toast (per_file_toasts env (length (sent s)) fs))
            = succeeded_among env (length (sent s)) (length fs) \<and>
          length (filter is_error_toast (per_file_toasts env (length (sent s)) fs))
            = length fs - succeeded_among env (length (sent s)) (length fs) \<and>
          reported_successes (per_file_toasts env (length (sent s)) fs) = 0 \<and>
          reported_failures (per_file_toasts env (length (sent s)) fs) = 0"
    unfolding run1
    by (simp add: length_per_file_toasts success_toasts_per_file error_toasts_per_file
        no_counts_per_file loadFiles_def loadStats_def send_def)
  show ?thesis
    unfolding Let_def
    using run_handleFileUpload_report [of fs env s folderPath, unfolded Let_def] earlier
    by (rule conjI)
qed

text \<open>
  The claim as it was stated fails on the earlier handler: two files that both upload
  give two toasts, one naming each file, and no toast with the count 2.
\<close>

theorem upload_v1_reports_per_file_counterexample:
  "succeeded_among always_ok 0 2 = 2 \<and>
   toasts (final_state (run always_ok
       (handleFileUpload_v1 initial_client [local_a, local_b] initial_client)))
     = [ToastSuccess (Named [] (js ''a.txt'') '' uploaded successfully''),
        ToastSuccess (Named [] (js ''b.txt'') '' uploaded successfully'')] \<and>
   reported_successes (toasts (final_state (run always_ok
       (handleFileUpload_v1 initial_client [local_a, local_b] initial_client)))) = 0"
  by (simp add: succeeded_among_def always_ok_def handleFileUpload_v1_def initial_client_def
      local_a_def local_b_def show_toast_def send_def loadFiles_def loadStats_def
      reported_successes_def upt_rec)


section \<open>Sequencing awaited handlers\<close>

lemma run_then_do:
  "run env (then_do p f) =
     (case run env p of Returned s \<Rightarrow> run env (f s) | Rejected e s \<Rightarrow> Rejected e s)"
proof (induction p)
  case (Finished s)
  show ?case by simp
next
  case (Thrown e s)
  show ?case by simp
next
  case (Awaiting s r k)
  show ?case by (simp add: Awaiting.IH [OF rangeI rangeI])
qed

lemma run_handleFileUpload:
  "fs \<noteq> [] \<Longrightarrow>
   run env (handleFileUpload c fs fp live) =
     Returned (upload_report c
       (succeeded_among env (length (sent live)) (length fs))
       (length fs - succeeded_among env (length (sent live)) (length fs))
       (live\<lparr>loading := True,
             sent := sent live @ map (\<lambda>f. PostUpload f (upload_target_of c fp)) fs\<rparr>))"
  by (simp add: handleFileUpload_def run_upload_each)

lemma sent_upload_report:
  "sent (upload_report c ok err live) =
     sent live @ [GetFiles (or_empty (currentFolder c)), GetFolderTree, GetStats]"
  by (simp add: upload_report_def Let_def show_toast_def loadFiles_def loadFolders_def
      loadStats_def send_def)

section \<open>Blank folder names\<close>

lemma trim_blank:
  assumes "list_all is_js_whitespace name"
  shows "trim name = []"
proof -
  have "dropWhile is_js_whitespace name = []"
    using assms unfolding list_all_iff by (rule iffD2 [OF dropWhile_eq_Nil_conv])
  then show ?thesis by (simp only: trim_def rev.simps dropWhile.simps)
qed

lemma trim_nonblank:
  assumes "\<not> list_all is_js_whitespace name"
  shows "trim name \<noteq> []"
proof -
  let ?ys = "dropWhile is_js_whitespace name"
  have ne: "?ys \<noteq> []"
    using assms unfolding list_all_iff dropWhile_eq_Nil_conv .
  then have "\<not> is_js_whitespace (hd ?ys)"
    by (rule hd_dropWhile)
  moreover have "hd ?ys \<in> set (rev ?ys)"
    using ne by simp
  ultimately have "dropWhile is_js_whitespace (rev ?ys) \<noteq> []"
    by (auto simp: dropWhile_eq_Nil_conv simp del: set_rev)
  then show ?thesis by (simp add: trim_def)
qed

text \<open>
  C3. When every code unit of the folder name is JavaScript whitespace (the empty name
  included), \<open>handleCreateFolder\<close> returns at once with the state untouched: it is not
  suspended on any request, and the request log is what it was.
\<close>

theorem create_folder_blank_name_sends_nothing:
  assumes "list_all is_js_whitespace (newFolderName s)"
  shows "handleCreateFolder s = Finished s \<and> run env (handleCreateFolder s) = Returned s"
  using assms by (simp add: handleCreateFolder_def trim_blank)

theorem create_folder_blank_name_witness:
  "list_all is_js_whitespace (newFolderName (initial_client\<lparr>newFolderName := js ''   ''\<rparr>)) \<and>
   list_all is_js_whitespace (newFolderName initial_client) \<and>
   handleCreateFolder (initial_client\<lparr>newFolderName := js ''   ''\<rparr>)
     = Finished (initial_client\<lparr>newFolderName := js ''   ''\<rparr>) \<and>
   run always_ok (handleCreateFolder initial_client) = Returned initial_client"
proof -
  have h1: "list_all is_js_whitespace
              (newFolderName (initial_client\<lparr>newFolderName := js ''   ''\<rparr>))"
    by (simp add: js_def is_js_whitespace_def)
  have h2: "list_all is_js_whitespace (newFolderName initial_client)"
    by (simp add: initial_client_def)
  from create_folder_blank_name_sends_nothing [OF h1, of always_ok]
       create_folder_blank_name_sends_nothing [OF h2, of always_ok] h1 h2
  show ?thesis by blast
qed

text \<open>The guard is not vacuous: any other name does issue the create request.\<close>

lemma create_folder_named_sends_request:
  assumes "\<not> list_all is_js_whitespace (newFolderName s)"
  shows "\<exists>k. handleCreateFolder s
            = Awaiting s (PostCreateFolder (newFolderName s) (currentFolder s)) k"
  using assms by (simp add: handleCreateFolder_def trim_nonblank)

section \<open>The docs tree\<close>

lemma folder_path_docs:
  "webkitRelativePath a = js ''docs/a.txt'' \<Longrightarrow> folder_path_of a = js ''docs''"
  by (simp add: folder_path_of_def js_def slash_def)

lemma folder_path_docs_sub:
  "webkitRelativePath b = js ''docs/sub/b.txt'' \<Longrightarrow> folder_path_of b = js ''docs/sub''"
  by (simp add: folder_path_of_def js_def slash_def)

lemma docs_keys_plain:
  "js ''docs'' \<notin> set object_prototype_keys" "js ''docs/sub'' \<notin> set object_prototype_keys"
  "js ''docs'' \<noteq> js ''docs/sub''" "js ''docs/sub'' \<noteq> js ''docs''"
  "array_index (js ''docs'') = None" "array_index (js ''docs/sub'') = None"
  by (simp_all add: object_prototype_keys_def js_def array_index_def)

text \<open>
  C4. For two selected files with relative paths \<open>docs/a.txt\<close> and \<open>docs/sub/b.txt\<close>,
  \<open>handleFolderUpload\<close> derives exactly the two groups \<open>docs\<close> (holding the first file)
  and \<open>docs/sub\<close> (holding the second), iterates them in that order, and, whatever the
  responses, uploads the first file with \<open>folder_path = docs\<close> and the second with
  \<open>folder_path = docs/sub\<close>; these are its only two upload requests.
\<close>

theorem folder_upload_groups_docs_tree:
  assumes a: "webkitRelativePath a = js ''docs/a.txt''"
      and b: "webkitRelativePath b = js ''docs/sub/b.txt''"
  shows "group_files [a, b] [] = Inr [(js ''docs'', [a]), (js ''docs/sub'', [b])] \<and>
         object_entries [(js ''docs'', [a]), (js ''docs/sub'', [b])]
           = [(js ''docs'', [a]), (js ''docs/sub'', [b])] \<and>
         (\<exists>s'. run env (handleFolderUpload [a, b] s) = Returned s' \<and>
               uploads_in (drop (length (sent s)) (sent s'))
                 = [(a, FolderPath (js ''docs'')), (b, FolderPath (js ''docs/sub''))] \<and>
               sent s' = sent s @
                 [PostUpload a (FolderPath (js ''docs'')),
                  GetFiles (or_empty (currentFolder s)), GetFolderTree, GetStats,
                  PostUpload b (FolderPath (js ''docs/sub'')),
                  GetFiles (or_empty (currentFolder s)), GetFolderTree, GetStats])"
proof -
  let ?groups = "[(js ''docs'', [a]), (js ''docs/sub'', [b])]"
  let ?trace = "[PostUpload a (FolderPath (js ''docs'')),
                 GetFiles (or_empty (currentFolder s)), GetFolderTree, GetStats,
                 PostUpload b (FolderPath (js ''docs/sub'')),
                 GetFiles (or_empty (currentFolder s)), GetFolderTree, GetStats]"
  have g: "group_files [a, b] [] = Inr ?groups"
    by (simp add: folder_path_docs [OF a] folder_path_docs_sub [OF b] docs_keys_plain Let_def
        push_file_def)
  have e: "object_entries ?groups = ?groups"
    by (simp add: object_entries_def docs_keys_plain)
  have nonempty: "js ''docs'' \<noteq> []" "js ''docs/sub'' \<noteq> []"
    by (simp_all add: js_def)
  have h: "handleFolderUpload [a, b] s =
        then_do (upload_groups s ?groups (s\<lparr>loading := True\<rparr>))
          (\<lambda>live. Finished (live\<lparr>loading := False\<rparr>))"
    by (simp add: handleFolderUpload_def g e del: group_files.simps)
  obtain s' where s': "run env (handleFolderUpload [a, b] s) = Returned s'"
    and sent': "sent s' = sent s @ ?trace"
    by (simp add: h run_then_do run_handleFileUpload sent_upload_report upload_target_of_def
        nonempty)
  have "uploads_in (drop (length (sent s)) (sent s'))
          = [(a, FolderPath (js ''docs'')), (b, FolderPath (js ''docs/sub''))]"
    by (simp add: sent')
  with g e s' sent' show ?thesis by blast
qed

theorem folder_upload_groups_docs_tree_witness:
  "webkitRelativePath local_a = js ''docs/a.txt'' \<and>
   webkitRelativePath local_b = js ''docs/sub/b.txt'' \<and>
   group_files [local_a, local_b] []
     = Inr [(js ''docs'', [local_a]), (js ''docs/sub'', [local_b])] \<and>
   (\<exists>s'. run always_ok (handleFolderUpload [local_a, local_b] initial_client) = Returned s' \<and>
         uploads_in (drop (length (sent initial_client)) (sent s'))
           = [(local_a, FolderPath (js ''docs'')), (local_b, FolderPath (js ''docs/sub''))])"
proof -
  have a: "webkitRelativePath local_a = js ''docs/a.txt''"
    by (simp add: local_a_def)
  have b: "webkitRelativePath local_b = js ''docs/sub/b.txt''"
    by (simp add: local_b_def)
  from folder_upload_groups_docs_tree [OF a b, of always_ok initial_client] a b
  show ?thesis by blast
qed

section \<open>Drops on a folder\<close>

text \<open>
  C6, as amended. For a drop of a dragged item onto a folder with a different id:
  \<open>dropTarget\<close> is cleared synchronously, before the handler suspends on the move
  request, while \<open>draggedItem\<close> is still set at that point; when the handler resumes,
  whether the request succeeded or failed, it clears \<open>draggedItem\<close> and leaves
  \<open>dropTarget\<close> as it finds it, so that after an uninterrupted run both are cleared.
\<close>

theorem drop_on_folder_clears_drag_state:
  assumes d: "draggedItem s = Some d"
      and ne: "item_id d \<noteq> folder_id targetFolder"
  shows "\<exists>k. handleDropOnFolder targetFolder s
              = Awaiting (s\<lparr>dropTarget := None\<rparr>)
                  (move_request d (Some (folder_id targetFolder))) k \<and>
             (\<forall>resp live. \<exists>s'. k resp live = Finished s' \<and> draggedItem s' = None \<and>
                                dropTarget s' = dropTarget live) \<and>
             (\<forall>env. \<exists>s'. run env (handleDropOnFolder targetFolder s) = Returned s' \<and>
                           draggedItem s' = None \<and> dropTarget s' = None) \<and>
             dropTarget (sync_state (handleDropOnFolder targetFolder s)) = None \<and>
             draggedItem (sync_state (handleDropOnFolder targetFolder s)) = Some d"
proof -
  let ?k = "\<lambda>resp live.
                 case resp of
                   Succeeded \<Rightarrow>
                     Finished
                       ((loadFolders s (loadFiles s
                           (show_toast
                              (ToastSuccess
                                 (Lit (case d of
                                         FileItem f \<Rightarrow> ''File moved successfully''
                                       | FolderItem g \<Rightarrow> ''Folder moved successfully'')))
                              live)))
                          \<lparr>draggedItem := None\<rparr>)
                 | Failed e \<Rightarrow>
                     Finished
                       ((show_toast (ToastError (detail_or e (Lit ''Failed to move''))) live)
                          \<lparr>draggedItem := None\<rparr>)"
  have h: "handleDropOnFolder targetFolder s
             = Awaiting (s\<lparr>dropTarget := None\<rparr>)
                 (move_request d (Some (folder_id targetFolder))) ?k"
    using d ne by (simp add: handleDropOnFolder_def)
  have k: "\<exists>s'. ?k resp live = Finished s' \<and> draggedItem s' = None \<and>
                 dropTarget s' = dropTarget live" for resp live
    by (cases resp)
       (simp_all add: show_toast_def loadFiles_def loadFolders_def send_def)
  have r: "\<exists>s'. run env (handleDropOnFolder targetFolder s) = Returned s' \<and>
                 draggedItem s' = None \<and> dropTarget s' = None" for env
    by (cases "env (length (sent s))")
       (simp_all add: h show_toast_def loadFiles_def loadFolders_def send_def)
  show ?thesis
    using h k r d by (intro exI [of _ ?k]) simp
qed

theorem drop_on_folder_clears_drag_state_witness:
  "draggedItem dragging_file_x = Some (FileItem file_x) \<and>
   item_id (FileItem file_x) \<noteq> folder_id folder_b \<and>
   (\<exists>k. handleDropOnFolder folder_b dragging_file_x
           = Awaiting (dragging_file_x\<lparr>dropTarget := None\<rparr>)
               (move_request (FileItem file_x) (Some (folder_id folder_b))) k \<and>
         (\<forall>resp live. \<exists>s'. k resp live = Finished s' \<and> draggedItem s' = None \<and>
                            dropTarget s' = dropTarget live) \<and>
         (\<forall>env. \<exists>s'. run env (handleDropOnFolder folder_b dragging_file_x) = Returned s' \<and>
                       draggedItem s' = None \<and> dropTarget s' = None) \<and>
         dropTarget (sync_state (handleDropOnFolder folder_b dragging_file_x)) = None \<and>
         draggedItem (sync_state (handleDropOnFolder folder_b dragging_file_x))
           = Some (FileItem file_x))"
proof -
  have d: "draggedItem dragging_file_x = Some (FileItem file_x)"
    by (simp add: dragging_file_x_def)
  have ne: "item_id (FileItem file_x) \<noteq> folder_id folder_b"
    by (simp add: file_x_def folder_b_def)
  show ?thesis
    using d ne drop_on_folder_clears_drag_state [OF d ne] by (intro conjI)
qed

text \<open>
  The claim as it was stated fails: with \<open>file_x\<close> dragged onto \<open>folder_b\<close>, the handler
  is suspended on the move request and \<open>draggedItem\<close> has not been cleared.
\<close>

theorem drop_on_folder_sync_counterexample:
  "pending_request (handleDropOnFolder folder_b dragging_file_x)
     = Some (PostMoveFile (IdNum 7) (Some (IdNum 2))) \<and>
   draggedItem (sync_state (handleDropOnFolder folder_b dragging_file_x))
     = Some (FileItem file_x) \<and>
   draggedItem (sync_state (handleDropOnFolder folder_b dragging_file_x)) \<noteq> None"
  by (simp add: handleDropOnFolder_def dragging_file_x_def initial_client_def folder_b_def
      file_x_def move_request_def)

text \<open>A drop of an item on the folder with the same id returns before any request.\<close>

lemma drop_on_same_id_sends_nothing:
  assumes "draggedItem s = Some d" and "item_id d = folder_id targetFolder"
  shows "handleDropOnFolder targetFolder s = Finished (s\<lparr>dropTarget := None\<rparr>)"
  using assms by (simp add: handleDropOnFolder_def)

section \<open>The move dialog\<close>

text \<open>
  C1. A run of the move dialog that sends a folder into itself. With folders \<open>A\<close> and
  \<open>B\<close> listed: open the dialog for \<open>A\<close>, pick \<open>B\<close> (enabled, since the target is
  \<open>A\<close>), dismiss the dialog, open it for \<open>B\<close>. \<open>moveDestination\<close> still holds \<open>B\<close>'s id,
  \<open>B\<close>'s own button is now disabled, and confirming makes \<open>handleMove\<close> post
  \<open>folders/move\<close> with \<open>folder_id = target_parent_id = 2\<close>.
\<close>

theorem move_dialog_stale_destination_moves_folder_into_itself:
  "(let s0 = initial_client\<lparr>folders := [folder_a, folder_b]\<rparr>;
        s1 = folder_move_click folder_a s0;
        s2 = move_to_click folder_b s1;
        s3 = setShowMoveDialog False s2;
        s4 = folder_move_click folder_b s3
    in \<not> move_to_disabled s1 folder_b \<and>
       moveTarget s4 = Some (FolderItem folder_b) \<and>
       moveDestination s4 = Some (folder_id folder_b) \<and>
       move_to_disabled s4 folder_b \<and>
       pending_request (handleMove s4) = Some (PostMoveFolder (IdNum 2) (Some (IdNum 2))) \<and>
       sent (final_state (run always_ok (handleMove s4)))
         = [PostMoveFolder (IdNum 2) (Some (IdNum 2)), GetFiles None, GetFolderTree])"
  by (simp add: Let_def initial_client_def folder_a_def folder_b_def folder_move_click_def
      move_to_click_def move_to_disabled_def setShowMoveDialog_def handleMove_def
      move_request_def always_ok_def show_toast_def loadFiles_def loadFolders_def send_def
      or_empty_def)

section \<open>What a successful move reloads\<close>

lemma move_request_not_GetStats:
  "move_request t dest \<noteq> GetStats" "GetStats \<noteq> move_request t dest"
  by (cases t; simp add: move_request_def)+

text \<open>
  C8. A successful move, through the dialog (\<open>handleMove\<close>), by a drop on a folder or
  by a drop on the root: the handler issues the move request, then the reload of the
  file list and the reload of the folder list, and nothing else; no stats request is
  among them, and \<open>stats\<close> is the same in the state it returns. When the reloads'
  responses arrive, in either order, \<open>files\<close> becomes the list the backend returned
  and \<open>folders\<close> becomes the returned folders whose parent is the current folder;
  a failed reload changes nothing; and neither response touches \<open>stats\<close>.
\<close>

theorem move_success_reloads_lists_not_stats:
  "(moveTarget s = Some t \<and> env (length (sent s)) = Succeeded \<longrightarrow>
      (\<exists>s'. run env (handleMove s) = Returned s' \<and>
            sent s' = sent s @ [move_request t (moveDestination s),
                                GetFiles (or_empty (currentFolder s)), GetFolderTree] \<and>
            GetStats \<notin> set (drop (length (sent s)) (sent s')) \<and>
            stats s' = stats s)) \<and>
   (draggedItem s = Some d \<and> item_id d \<noteq> folder_id targetFolder \<and>
    env (length (sent s)) = Succeeded \<longrightarrow>
      (\<exists>s'. run env (handleDropOnFolder targetFolder s) = Returned s' \<and>
            sent s' = sent s @ [move_request d (Some (folder_id targetFolder)),
                                GetFiles (or_empty (currentFolder s)), GetFolderTree] \<and>
            GetStats \<notin> set (drop (length (sent s)) (sent s')) \<and>
            stats s' = stats s)) \<and>
   (draggedItem s = Some d \<and> env (length (sent s)) = Succeeded \<longrightarrow>
      (\<exists>s'. run env (handleDropOnRoot s) = Returned s' \<and>
            sent s' = sent s @ [move_request d None,
                                GetFiles (or_empty (currentFolder s)), GetFolderTree] \<and>
            GetStats \<notin> set (drop (length (sent s)) (sent s')) \<and>
            stats s' = stats s)) \<and>
   stats (loadFiles_done filesResp live) = stats live \<and>
   stats (loadFolders_done s foldersResp live) = stats live \<and>
   files (loadFiles_done (Some newFiles) live) = newFiles \<and>
   folders (loadFiles_done (Some newFiles) live) = folders live \<and>
   folders (loadFolders_done s (Some allFolders) live)
     = filter (\<lambda>f. parent_id f = currentFolder s) allFolders \<and>
   files (loadFolders_done s (Some allFolders) live) = files live \<and>
   loadFiles_done None live = live \<and>
   loadFolders_done s None live = live \<and>
   files (loadFolders_done s (Some allFolders) (loadFiles_done (Some newFiles) live))
     = newFiles \<and>
   folders (loadFolders_done s (Some allFolders) (loadFiles_done (Some newFiles) live))
     = filter (\<lambda>f. parent_id f = currentFolder s) allFolders \<and>
   loadFiles_done (Some newFiles) (loadFolders_done s (Some allFolders) live)
     = loadFolders_done s (Some allFolders) (loadFiles_done (Some newFiles) live)"
proof (intro conjI impI)
  assume "moveTarget s = Some t \<and> env (length (sent s)) = Succeeded"
  then show "\<exists>s'. run env (handleMove s) = Returned s' \<and>
            sent s' = sent s @ [move_request t (moveDestination s),
                                GetFiles (or_empty (currentFolder s)), GetFolderTree] \<and>
            GetStats \<notin> set (drop (length (sent s)) (sent s')) \<and>
            stats s' = stats s"
    by (simp add: handleMove_def show_toast_def loadFiles_def loadFolders_def send_def
        move_request_not_GetStats)
next
  assume "draggedItem s = Some d \<and> item_id d \<noteq> folder_id targetFolder \<and>
          env (length (sent s)) = Succeeded"
  then show "\<exists>s'. run env (handleDropOnFolder targetFolder s) = Returned s' \<and>
            sent s' = sent s @ [move_request d (Some (folder_id targetFolder)),
                                GetFiles (or_empty (currentFolder s)), GetFolderTree] \<and>
            GetStats \<notin> set (drop (length (sent s)) (sent s')) \<and>
            stats s' = stats s"
    by (simp add: handleDropOnFolder_def show_toast_def loadFiles_def loadFolders_def send_def
        move_request_not_GetStats)
next
  assume "draggedItem s = Some d \<and> env (length (sent s)) = Succeeded"
  then show "\<exists>s'. run env (handleDropOnRoot s) = Returned s' \<and>
            sent s' = sent s @ [move_request d None,
                                GetFiles (or_empty (currentFolder s)), GetFolderTree] \<and>
            GetStats \<notin> set (drop (length (sent s)) (sent s')) \<and>
            stats s' = stats s"
    by (simp add: handleDropOnRoot_def show_toast_def loadFiles_def loadFolders_def send_def
        move_request_not_GetStats)
next
  show "stats (loadFiles_done filesResp live) = stats live"
    by (simp add: loadFiles_done_def split: option.split)
next
  show "stats (loadFolders_done s foldersResp live) = stats live"
    by (simp add: loadFolders_done_def split: option.split)
next
  show "files (loadFiles_done (Some newFiles) live) = newFiles"
    by (simp add: loadFiles_done_def)
next
  show "folders (loadFiles_done (Some newFiles) live) = folders live"
    by (simp add: loadFiles_done_def)
next
  show "folders (loadFolders_done s (Some allFolders) live)
          = filter (\<lambda>f. parent_id f = currentFolder s) allFolders"
    by (simp add: loadFolders_done_def)
next
  show "files (loadFolders_done s (Some allFolders) live) = files live"
    by (simp add: loadFolders_done_def)
next
  show "loadFiles_done None live = live"
    by (simp add: loadFiles_done_def)
next
  show "loadFolders_done s None live = live"
    by (simp add: loadFolders_done_def)
next
  show "files (loadFolders_done s (Some allFolders) (loadFiles_done (Some newFiles) live))
          = newFiles"
    by (simp add: loadFolders_done_def loadFiles_done_def)
next
  show "folders (loadFolders_done s (Some allFolders) (loadFiles_done (Some newFiles) live))
          = filter (\<lambda>f. parent_id f = currentFolder s) allFolders"
    by (simp add: loadFolders_done_def loadFiles_done_def)
next
  show "loadFiles_done (Some newFiles) (loadFolders_done s (Some allFolders) live)
          = loadFolders_done s (Some allFolders) (loadFiles_done (Some newFiles) live)"
    by (simp add: loadFolders_done_def loadFiles_done_def)
qed

theorem move_success_reloads_lists_not_stats_witness:
  "(\<exists>s'. run always_ok (handleMove moving_folder_a) = Returned s' \<and>
         sent s' = [PostMoveFolder (IdNum 1) (Some (IdNum 2)), GetFiles None, GetFolderTree] \<and>
         stats s' = stats moving_folder_a) \<and>
   (\<exists>s'. run always_ok (handleDropOnFolder folder_b dragging_file_x) = Returned s' \<and>
         sent s' = [PostMoveFile (IdNum 7) (Some (IdNum 2)), GetFiles None, GetFolderTree] \<and>
         stats s' = stats dragging_file_x) \<and>
   (\<exists>s'. run always_ok (handleDropOnRoot dragging_file_x) = Returned s' \<and>
         sent s' = [PostMoveFile (IdNum 7) None, GetFiles None, GetFolderTree] \<and>
         stats s' = stats dragging_file_x) \<and>
   files (loadFiles_done (Some [file_x]) initial_client) = [file_x] \<and>
   folders (loadFolders_done moving_folder_a
              (Some [folder_a, folder_b\<lparr>parent_id := Some (IdNum 1)\<rparr>]) initial_client)
     = [folder_a]"
proof -
  have m: "moveTarget moving_folder_a = Some (FolderItem folder_a) \<and>
           always_ok (length (sent moving_folder_a)) = Succeeded"
    by (simp add: moving_folder_a_def initial_client_def always_ok_def)
  have f: "draggedItem dragging_file_x = Some (FileItem file_x) \<and>
           item_id (FileItem file_x) \<noteq> folder_id folder_b \<and>
           always_ok (length (sent dragging_file_x)) = Succeeded"
    by (simp add: dragging_file_x_def initial_client_def always_ok_def file_x_def folder_b_def)
  have r: "draggedItem dragging_file_x = Some (FileItem file_x) \<and>
           always_ok (length (sent dragging_file_x)) = Succeeded"
    using f by simp
  have vals: "sent moving_folder_a = []" "sent dragging_file_x = []"
    "moveDestination moving_folder_a = Some (IdNum 2)"
    "or_empty (currentFolder moving_folder_a) = None"
    "or_empty (currentFolder dragging_file_x) = None"
    "move_request (FolderItem folder_a) (Some (IdNum 2)) = PostMoveFolder (IdNum 1) (Some (IdNum 2))"
    "move_request (FileItem file_x) (Some (folder_id folder_b))
       = PostMoveFile (IdNum 7) (Some (IdNum 2))"
    "move_request (FileItem file_x) None = PostMoveFile (IdNum 7) None"
    by (simp_all add: moving_folder_a_def dragging_file_x_def initial_client_def or_empty_def
        move_request_def folder_a_def folder_b_def file_x_def)
  have a: "\<exists>s'. run always_ok (handleMove moving_folder_a) = Returned s' \<and>
         sent s' = [PostMoveFolder (IdNum 1) (Some (IdNum 2)), GetFiles None, GetFolderTree] \<and>
         stats s' = stats moving_folder_a"
    using move_success_reloads_lists_not_stats
            [of moving_folder_a "FolderItem folder_a" always_ok, THEN conjunct1, rule_format, OF m]
    by (auto simp add: vals)
  have b: "\<exists>s'. run always_ok (handleDropOnFolder folder_b dragging_file_x) = Returned s' \<and>
         sent s' = [PostMoveFile (IdNum 7) (Some (IdNum 2)), GetFiles None, GetFolderTree] \<and>
         stats s' = stats dragging_file_x"
    using move_success_reloads_lists_not_stats
            [of dragging_file_x _ always_ok "FileItem file_x" folder_b,
             THEN conjunct2, THEN conjunct1, rule_format, OF f]
    by (auto simp add: vals)
  have c: "\<exists>s'. run always_ok (handleDropOnRoot dragging_file_x) = Returned s' \<and>
         sent s' = [PostMoveFile (IdNum 7) None, GetFiles None, GetFolderTree] \<and>
         stats s' = stats dragging_file_x"
    using move_success_reloads_lists_not_stats
            [of dragging_file_x _ always_ok "FileItem file_x",
             THEN conjunct2, THEN conjunct2, THEN conjunct1, rule_format, OF r]
    by (auto simp add: vals)
  have e: "files (loadFiles_done (Some [file_x]) initial_client) = [file_x]"
    using move_success_reloads_lists_not_stats [of _ _ _ _ _ _ initial_client _ "[file_x]"]
    by simp
  have g: "folders (loadFolders_done moving_folder_a
                      (Some [folder_a, folder_b\<lparr>parent_id := Some (IdNum 1)\<rparr>]) initial_client)
             = [folder_a]"
    using move_success_reloads_lists_not_stats
            [of moving_folder_a _ _ _ _ _ initial_client _ _
                "[folder_a, folder_b\<lparr>parent_id := Some (IdNum 1)\<rparr>]"]
    by (simp add: moving_folder_a_def initial_client_def folder_a_def folder_b_def)
  from a b c e g show ?thesis by blast
qed

section \<open>Drops on the file-manager card\<close>

text \<open>
  C9, as amended. For a drop on the card: when the event carries files, the handler
  is the upload of those files to the current folder (one upload request per file,
  then the reloads) and no move is requested, whatever is being dragged; when it
  carries none and an item is being dragged, the handler suspends on the request
  moving that item to the root (destination \<open>null\<close>); when it carries none and nothing
  is being dragged, the handler returns without any request.
\<close>

theorem card_drop_files_take_precedence:
  "(dropped \<noteq> [] \<longrightarrow>
      card_onDrop dropped s = handleFileUpload s dropped None (s\<lparr>dragOver := False\<rparr>) \<and>
      (\<exists>s'. run env (card_onDrop dropped s) = Returned s' \<and>
            sent s' = sent s @ map (\<lambda>f. PostUpload f (current_target s)) dropped
                      @ [GetFiles (or_empty (currentFolder s)), GetFolderTree, GetStats])) \<and>
   (dropped = [] \<and> draggedItem s = Some d \<longrightarrow>
      pending_request (card_onDrop dropped s) = Some (move_request d None) \<and>
      sync_state (card_onDrop dropped s) = s\<lparr>dropTarget := None\<rparr> \<and>
      (\<exists>s'. run env (card_onDrop dropped s) = Returned s' \<and>
            take 1 (drop (length (sent s)) (sent s')) = [move_request d None])) \<and>
   (dropped = [] \<and> draggedItem s = None \<longrightarrow>
      card_onDrop dropped s = Finished (s\<lparr>dropTarget := None\<rparr>))"
proof (intro conjI impI)
  assume ne: "dropped \<noteq> []"
  then show "card_onDrop dropped s = handleFileUpload s dropped None (s\<lparr>dragOver := False\<rparr>)"
    by (simp add: card_onDrop_def handleDrop_def)
  from ne show "\<exists>s'. run env (card_onDrop dropped s) = Returned s' \<and>
            sent s' = sent s @ map (\<lambda>f. PostUpload f (current_target s)) dropped
                      @ [GetFiles (or_empty (currentFolder s)), GetFolderTree, GetStats]"
    by (simp add: card_onDrop_def handleDrop_def run_handleFileUpload sent_upload_report
        upload_target_of_def)
next
  assume h: "dropped = [] \<and> draggedItem s = Some d"
  then show "pending_request (card_onDrop dropped s) = Some (move_request d None)"
    by (simp add: card_onDrop_def handleDropOnRoot_def)
  from h show "sync_state (card_onDrop dropped s) = s\<lparr>dropTarget := None\<rparr>"
    by (simp add: card_onDrop_def handleDropOnRoot_def)
  from h show "\<exists>s'. run env (card_onDrop dropped s) = Returned s' \<and>
            take 1 (drop (length (sent s)) (sent s')) = [move_request d None]"
    by (cases "env (length (sent s))")
       (simp_all add: card_onDrop_def handleDropOnRoot_def show_toast_def loadFiles_def
          loadFolders_def send_def)
next
  assume "dropped = [] \<and> draggedItem s = None"
  then show "card_onDrop dropped s = Finished (s\<lparr>dropTarget := None\<rparr>)"
    by (simp add: card_onDrop_def handleDropOnRoot_def)
qed

theorem card_drop_files_take_precedence_witness:
  "(\<exists>s'. run always_ok (card_onDrop [local_a] dragging_file_x) = Returned s' \<and>
         sent s' = [PostUpload local_a NoFolder, GetFiles None, GetFolderTree, GetStats]) \<and>
   pending_request (card_onDrop [] dragging_file_x) = Some (PostMoveFile (IdNum 7) None) \<and>
   card_onDrop [] initial_client = Finished initial_client"
proof -
  have vals: "sent dragging_file_x = []" "current_target dragging_file_x = NoFolder"
    "or_empty (currentFolder dragging_file_x) = None"
    "move_request (FileItem file_x) None = PostMoveFile (IdNum 7) None"
    "initial_client\<lparr>dropTarget := None\<rparr> = initial_client"
    by (simp_all add: dragging_file_x_def initial_client_def current_target_def or_empty_def
        move_request_def file_x_def)
  have h1: "[local_a] \<noteq> []" by simp
  have h2: "[] = ([] :: local_file list) \<and> draggedItem dragging_file_x = Some (FileItem file_x)"
    by (simp add: dragging_file_x_def)
  have h3: "[] = ([] :: local_file list) \<and> draggedItem initial_client = None"
    by (simp add: initial_client_def)
  have a: "\<exists>s'. run always_ok (card_onDrop [local_a] dragging_file_x) = Returned s' \<and>
         sent s' = [PostUpload local_a NoFolder, GetFiles None, GetFolderTree, GetStats]"
    using card_drop_files_take_precedence
            [of "[local_a]" dragging_file_x always_ok, THEN conjunct1, rule_format, OF h1]
    by (auto simp add: vals)
  have b: "pending_request (card_onDrop [] dragging_file_x) = Some (PostMoveFile (IdNum 7) None)"
    using card_drop_files_take_precedence
            [of "[]" dragging_file_x always_ok "FileItem file_x",
             THEN conjunct2, THEN conjunct1, rule_format, OF h2]
    by (auto simp add: vals)
  have c: "card_onDrop [] initial_client = Finished initial_client"
    using card_drop_files_take_precedence
            [of "[]" initial_client always_ok, THEN conjunct2, THEN conjunct2, rule_format, OF h3]
    by (simp add: vals)
  from a b c show ?thesis by blast
qed

text \<open>
  The claim as it was stated fails: a drop that carries no files while nothing is
  being dragged issues no move request at all.
\<close>

theorem card_drop_without_item_counterexample:
  "draggedItem initial_client = None \<and>
   card_onDrop [] initial_client = Finished initial_client \<and>
   pending_request (card_onDrop [] initial_client) = None \<and>
   sent (final_state (run always_ok (card_onDrop [] initial_client))) = []"
  by (simp add: card_onDrop_def handleDropOnRoot_def initial_client_def)

section \<open>The password rules on the spec's examples\<close>

lemmas pw_defs = validatePassword_def passed_rules_def flipped_rules_def requirements_def
  js_def is_upper_def is_lower_def is_special_def special_chars_def

lemma validatePassword_empty_iff: "validatePassword p = [] \<longleftrightarrow> allPassed p"
  by (auto simp add: validatePassword_def allPassed_def requirements_def)

text \<open>
  C5, as amended. The validator has exactly four rules (length at least 8, an uppercase
  letter, a lowercase letter, a special character). \<open>abc\<close> fails the length, uppercase
  and special-character rules and passes the lowercase rule; \<open>Abcdef1!\<close> passes all
  four. Replacing the special character of \<open>Abcdef1!\<close> by a character that is not
  special (\<open>Abcdef1x\<close>, \<open>Abcdef12\<close>) flips exactly the special-character rule;
  removing it gives the seven characters \<open>Abcdef1\<close> and flips two rules, the
  special-character rule and the length rule, the uppercase and lowercase outcomes
  staying as they were.
\<close>

theorem password_rules_on_examples:
  "map req_id requirements = [''length'', ''uppercase'', ''lowercase'', ''special''] \<and>
   validatePassword []
     = [''Minimum 8 characters'', ''At least one uppercase letter'',
        ''At least one lowercase letter'', ''At least one special character''] \<and>
   validatePassword (js ''abc'')
     = [''Minimum 8 characters'', ''At least one uppercase letter'',
        ''At least one special character''] \<and>
   passed_rules (js ''abc'') = [''lowercase''] \<and>
   validatePassword (js ''Abcdef1!'') = [] \<and>
   passed_rules (js ''Abcdef1!'') = [''length'', ''uppercase'', ''lowercase'', ''special''] \<and>
   flipped_rules (js ''Abcdef1!'') (js ''Abcdef1x'') = [''special''] \<and>
   flipped_rules (js ''Abcdef1!'') (js ''Abcdef12'') = [''special''] \<and>
   flipped_rules (js ''Abcdef1!'') (js ''Abcdef1'') = [''length'', ''special'']"
  by (simp add: pw_defs)

text \<open>
  The claim as it was stated fails: removing the special character from \<open>Abcdef1!\<close>
  does not flip the special-character rule alone.
\<close>

theorem remove_special_flips_two_rules_counterexample:
  "filter (\<lambda>c. \<not> is_special c) (js ''Abcdef1!'') = js ''Abcdef1'' \<and>
   flipped_rules (js ''Abcdef1!'') (js ''Abcdef1'') \<noteq> [''special''] \<and>
   validatePassword (js ''Abcdef1'')
     = [''Minimum 8 characters'', ''At least one special character'']"
  by (simp add: pw_defs)

end
